theory Spec2Isabelle
  imports Main
begin

section \<open>The adapter \<open>useBaseQuery\<close> of src/vue/useBaseQuery.ts\<close>

text \<open>
  \<open>useBaseQuery\<close> builds one observer per call, copies the observer's current result
  into a reactive object, subscribes a callback that refreshes that object, registers a
  \<open>watchEffect\<close> that pushes the re-defaulted options into the observer, registers an
  \<open>onUnmounted\<close> hook that calls the \<open>unsubscribe\<close> function, and returns the result
  refs together with a \<open>suspense\<close> function.

  The function is embedded as explicit state passing. The JavaScript closures it creates
  are defunctionalised: each arrow function of the source is one constructor, and a
  \<open>call_\<close> function gives its body. Options are JavaScript objects, passed by reference
  and changed in place by the caller, so they live in an explicit store and the bindings
  \<open>options\<close> and \<open>defaultedOptions\<close> hold addresses. Everything the file imports (the
  query client, the observer class of react-query/core, \<open>updateState\<close> of ./utils, the
  primitives of vue-demi) is either a parameter or a small model stated next to its use.
\<close>

subsection \<open>Options objects and the store\<close>

text \<open>
  \<open>UseBaseQueryOptions\<close> (lines 21-29) is \<open>WithQueryClientKey<QueryObserverOptions<..>>\<close>.
  An options object has the optional client key, the query key, which is itself an object
  (an array) and therefore held by reference, and its other top-level fields \<open>'q\<close>, left
  abstract. The store maps addresses to options objects and to query key contents;
  \<open>next_ref\<close> is the first address not yet allocated.
\<close>

type_synonym ref = nat

record 'q UseBaseQueryOptions =
  queryClientKey :: "string option"
  queryKey :: ref
  observerOptions :: 'q

record ('k, 'q) store =
  objects :: "ref \<Rightarrow> 'q UseBaseQueryOptions"
  keys :: "ref \<Rightarrow> 'k"
  next_ref :: ref

text \<open>What a reader of the options object at address \<open>r\<close> finds at the moment of reading:
  its fields, and behind its \<open>queryKey\<close> field the contents of the key.\<close>

definition deref :: "('k, 'q) store \<Rightarrow> ref \<Rightarrow> 'q UseBaseQueryOptions \<times> 'k" where
  "deref s r = (objects s r, keys s (queryKey (objects s r)))"

subsection \<open>The imported collaborators\<close>

text \<open>
  The functions the source calls but does not define, taken as parameters:
  \<^item> \<open>useQueryClient\<close> of ./useQueryClient (line 55);
  \<^item> \<open>queryClient.defaultQueryObserverOptions\<close> (lines 56 and 64): given the store and the
    address of an options object, it returns the address of the defaulted options and the
    store it leaves behind. Whether the result is the object it was given, a copy, or a
    copy that shares parts with the original is up to the parameter;
  \<^item> \<open>initialResult c s o\<close> is what \<open>new Observer(c, o).getCurrentResult()\<close> returns in
    store \<open>s\<close> (lines 57-58);
  \<^item> \<open>updateState\<close> of ./utils (line 60), as the function from the old contents of
    \<open>state\<close> and the delivered result to the new contents.
\<close>

record ('c, 'k, 'q, 'r) collaborators =
  useQueryClient :: "string option \<Rightarrow> 'c"
  defaultQueryObserverOptions :: "'c \<Rightarrow> ('k, 'q) store \<Rightarrow> ref \<Rightarrow> ref \<times> ('k, 'q) store"
  initialResult :: "'c \<Rightarrow> ('k, 'q) store \<Rightarrow> ref \<Rightarrow> 'r"
  updateState :: "'r \<Rightarrow> 'r \<Rightarrow> 'r"

subsection \<open>The observer handle\<close>

text \<open>
  Modelled from the spec: the observer class, which the source imports from
  react-query/core (line 11) and which is not among the sources. It is the Query Observer
  of section 4.5 of the specification, with the operations \<open>constructor(cache, options)\<close>,
  \<open>getCurrentResult()\<close>, \<open>subscribe(callback) -> unsubscribe\<close>, \<open>setOptions(newOptions)\<close>
  and \<open>fetchOptimistic(options)\<close>. Only what \<open>useBaseQuery\<close> can see of it is kept: the
  options last set, the current result, the subscribed callbacks in subscription order,
  and the \<open>fetchOptimistic\<close> calls in call order, each with the argument it was given
  (\<open>'o\<close>, an address) and what that argument held when the call read it (\<open>'v\<close>). How the
  observer computes results is not modelled: a new result is an event of the environment
  (see \<open>Notify\<close>).
\<close>

record ('o, 'v, 'r, 'l) Observer =
  obs_options :: 'o
  currentResult :: 'r
  listeners :: "'l list"
  fetchOptimistic_calls :: "('o \<times> 'v) list"

definition new_Observer :: "'r \<Rightarrow> 'o \<Rightarrow> ('o, 'v, 'r, 'l) Observer" where
  "new_Observer r0 opts =
     \<lparr>obs_options = opts, currentResult = r0, listeners = [], fetchOptimistic_calls = []\<rparr>"

definition getCurrentResult :: "('o, 'v, 'r, 'l) Observer \<Rightarrow> 'r" where
  "getCurrentResult obs = currentResult obs"

text \<open>\<open>subscribe\<close> adds the callback and returns the function that removes it again; that
  function is represented by \<open>Unsubscribe l\<close> and run by \<open>call_unsubscribe\<close>.\<close>

datatype 'l unsubscribe_fn = Unsubscribe 'l

definition subscribe ::
  "('o, 'v, 'r, 'l) Observer \<Rightarrow> 'l \<Rightarrow> ('o, 'v, 'r, 'l) Observer \<times> 'l unsubscribe_fn" where
  "subscribe obs l = (obs\<lparr>listeners := listeners obs @ [l]\<rparr>, Unsubscribe l)"

fun call_unsubscribe ::
  "'l unsubscribe_fn \<Rightarrow> ('o, 'v, 'r, 'l) Observer \<Rightarrow> ('o, 'v, 'r, 'l) Observer" where
  "call_unsubscribe (Unsubscribe l) obs = obs\<lparr>listeners := filter (\<lambda>x. x \<noteq> l) (listeners obs)\<rparr>"

definition setOptions :: "('o, 'v, 'r, 'l) Observer \<Rightarrow> 'o \<Rightarrow> ('o, 'v, 'r, 'l) Observer" where
  "setOptions obs opts = obs\<lparr>obs_options := opts\<rparr>"

definition fetchOptimistic ::
  "('o, 'v, 'r, 'l) Observer \<Rightarrow> 'o \<Rightarrow> 'v \<Rightarrow> ('o, 'v, 'r, 'l) Observer" where
  "fetchOptimistic obs opts seen =
     obs\<lparr>fetchOptimistic_calls := fetchOptimistic_calls obs @ [(opts, seen)]\<rparr>"

subsection \<open>The closures of \<open>useBaseQuery\<close> and the component's state\<close>

text \<open>
  The three arrow functions handed to the libraries:
  \<^item> \<open>UpdateStateListener\<close>: \<open>(result) => { updateState(state, result); }\<close>, lines 59-61;
  \<^item> \<open>SetOptionsEffect\<close>:
    \<open>() => { observer.setOptions(queryClient.defaultQueryObserverOptions(options)); }\<close>,
    lines 63-65;
  \<^item> \<open>UnsubscribeHook\<close>: \<open>() => { unsubscribe(); }\<close>, lines 67-69.
\<close>

datatype listener = UpdateStateListener

datatype effect = SetOptionsEffect

datatype hook = UnsubscribeHook

text \<open>
  The bindings of one \<open>useBaseQuery\<close> call, with their source names, the two registries
  of vue-demi the call writes to (the effects registered by \<open>watchEffect\<close> and the hooks
  registered by \<open>onUnmounted\<close>), and the store. \<open>options\<close> is the address of the caller's
  reactive options object, \<open>defaultedOptions\<close> the address bound on line 56; \<open>state\<close> is
  the contents of the reactive object of line 58.
\<close>

record ('c, 'k, 'q, 'r) component =
  options :: ref
  queryClient :: 'c
  defaultedOptions :: ref
  observer :: "(ref, 'q UseBaseQueryOptions \<times> 'k, 'r, listener) Observer"
  state :: 'r
  unsubscribe :: "listener unsubscribe_fn"
  effects :: "effect list"
  unmounted_hooks :: "hook list"
  memory :: "('k, 'q) store"

fun call_listener ::
  "('c, 'k, 'q, 'r) collaborators \<Rightarrow> 'r \<Rightarrow> listener \<Rightarrow> ('c, 'k, 'q, 'r) component \<Rightarrow>
     ('c, 'k, 'q, 'r) component" where
  "call_listener env result UpdateStateListener w = w\<lparr>state := updateState env (state w) result\<rparr>"

fun call_effect ::
  "('c, 'k, 'q, 'r) collaborators \<Rightarrow> effect \<Rightarrow> ('c, 'k, 'q, 'r) component \<Rightarrow>
     ('c, 'k, 'q, 'r) component" where
  "call_effect env SetOptionsEffect w =
     (let (redefaulted, s) = defaultQueryObserverOptions env (queryClient w) (memory w) (options w)
      in w\<lparr>observer := setOptions (observer w) redefaulted, memory := s\<rparr>)"

fun call_hook :: "hook \<Rightarrow> ('c, 'k, 'q, 'r) component \<Rightarrow> ('c, 'k, 'q, 'r) component" where
  "call_hook UnsubscribeHook w = w\<lparr>observer := call_unsubscribe (unsubscribe w) (observer w)\<rparr>"

text \<open>\<open>suspense\<close>, line 77: \<open>() => observer.fetchOptimistic(defaultedOptions)\<close>. The call
  passes the address bound to \<open>defaultedOptions\<close>; what the observer reads behind it is
  what the store holds there when \<open>suspense\<close> is called.\<close>

definition suspense :: "('c, 'k, 'q, 'r) component \<Rightarrow> ('c, 'k, 'q, 'r) component" where
  "suspense w =
     w\<lparr>observer := fetchOptimistic (observer w) (defaultedOptions w)
          (deref (memory w) (defaultedOptions w))\<rparr>"

text \<open>
  The two vue-demi primitives with an effect on the component: \<open>watchEffect\<close> registers
  the effect and runs it a first time immediately; \<open>onUnmounted\<close> registers the hook.
\<close>

definition watchEffect ::
  "('c, 'k, 'q, 'r) collaborators \<Rightarrow> effect \<Rightarrow> ('c, 'k, 'q, 'r) component \<Rightarrow>
     ('c, 'k, 'q, 'r) component" where
  "watchEffect env f w = call_effect env f (w\<lparr>effects := effects w @ [f]\<rparr>)"

definition onUnmounted :: "hook \<Rightarrow> ('c, 'k, 'q, 'r) component \<Rightarrow> ('c, 'k, 'q, 'r) component" where
  "onUnmounted h w = w\<lparr>unmounted_hooks := unmounted_hooks w @ [h]\<rparr>"

text \<open>The body of \<open>useBaseQuery\<close>, lines 55-77, statement by statement, called in store \<open>s\<close>
  with the address \<open>opts\<close> of the caller's options object.\<close>

definition useBaseQuery ::
  "('c, 'k, 'q, 'r) collaborators \<Rightarrow> ('k, 'q) store \<Rightarrow> ref \<Rightarrow> ('c, 'k, 'q, 'r) component" where
  "useBaseQuery env s opts =
     (let queryClient0 = useQueryClient env (queryClientKey (objects s opts));
          (defaultedOptions0, s1) = defaultQueryObserverOptions env queryClient0 s opts;
          observer0 = new_Observer (initialResult env queryClient0 s1 defaultedOptions0)
                        defaultedOptions0;
          state0 = getCurrentResult observer0;
          (observer1, unsubscribe0) = subscribe observer0 UpdateStateListener;
          w = \<lparr>options = opts, queryClient = queryClient0,
               defaultedOptions = defaultedOptions0, observer = observer1,
               state = state0, unsubscribe = unsubscribe0,
               effects = [], unmounted_hooks = [], memory = s1\<rparr>
      in onUnmounted UnsubscribeHook (watchEffect env SetOptionsEffect w))"

subsection \<open>What can happen to a component after setup\<close>

text \<open>
  The environment of a component, as events, in any order and any number:
  \<^item> \<open>Notify r\<close>: the observer has a new result \<open>r\<close> and invokes its subscribed callbacks
    with it, in subscription order (section 4.5 of the specification: a change
    "invokes all subscriber callbacks in subscription order");
  \<^item> \<open>Assign q\<close>: the caller assigns to top-level fields of its reactive options object,
    in place (\<open>options.enabled = ...\<close>);
  \<^item> \<open>AssignKey k\<close>: the caller changes its query key in place, the usage that
    src/unnamed/part_000, lines 41-46, prescribes (\<open>reactive(['todo', { id }])\<close> with a
    ref \<open>id\<close> that changes);
  \<^item> \<open>RunEffects\<close>: the reactive runtime re-runs the registered effects;
  \<^item> \<open>Unmount\<close>: the component is disposed and the runtime runs the \<open>onUnmounted\<close> hooks;
  \<^item> \<open>Suspense\<close>: the consumer calls the returned \<open>suspense\<close> function.
  When the runtime re-runs an effect, and whether it still does after disposal, is left to
  the event sequence, so every schedule of the runtime is one of the sequences.
\<close>

datatype ('k, 'q, 'r) event =
  Notify 'r
  | Assign 'q
  | AssignKey 'k
  | RunEffects
  | Unmount
  | Suspense

definition assign :: "ref \<Rightarrow> 'q \<Rightarrow> ('k, 'q) store \<Rightarrow> ('k, 'q) store" where
  "assign r q s = s\<lparr>objects := (objects s)(r := (objects s r)\<lparr>observerOptions := q\<rparr>)\<rparr>"

definition assign_key :: "ref \<Rightarrow> 'k \<Rightarrow> ('k, 'q) store \<Rightarrow> ('k, 'q) store" where
  "assign_key r k s = s\<lparr>keys := (keys s)(queryKey (objects s r) := k)\<rparr>"

fun step ::
  "('c, 'k, 'q, 'r) collaborators \<Rightarrow> ('c, 'k, 'q, 'r) component \<Rightarrow> ('k, 'q, 'r) event \<Rightarrow>
     ('c, 'k, 'q, 'r) component" where
  "step env w (Notify r) =
     fold (call_listener env r) (listeners (observer w))
       (w\<lparr>observer := (observer w)\<lparr>currentResult := r\<rparr>\<rparr>)"
| "step env w (Assign q) = w\<lparr>memory := assign (options w) q (memory w)\<rparr>"
| "step env w (AssignKey k) = w\<lparr>memory := assign_key (options w) k (memory w)\<rparr>"
| "step env w RunEffects = fold (call_effect env) (effects w) w"
| "step env w Unmount = fold call_hook (unmounted_hooks w) w"
| "step env w Suspense = suspense w"

definition run ::
  "('c, 'k, 'q, 'r) collaborators \<Rightarrow> ('c, 'k, 'q, 'r) component \<Rightarrow> ('k, 'q, 'r) event list \<Rightarrow>
     ('c, 'k, 'q, 'r) component" where
  "run env w es = foldl (step env) w es"

subsection \<open>Concrete instances\<close>

text \<open>
  Two instances of the defaulting parameter: \<open>return_same\<close> hands back the object it was
  given; \<open>shallow_copy\<close> allocates a one-level copy, whose \<open>queryKey\<close> field still refers
  to the key of the original.
\<close>

definition return_same :: "'c \<Rightarrow> ('k, 'q) store \<Rightarrow> ref \<Rightarrow> ref \<times> ('k, 'q) store" where
  "return_same c s r = (r, s)"

definition shallow_copy :: "'c \<Rightarrow> ('k, 'q) store \<Rightarrow> ref \<Rightarrow> ref \<times> ('k, 'q) store" where
  "shallow_copy c s r =
     (next_ref s, s\<lparr>objects := (objects s)(next_ref s := objects s r),
                    next_ref := Suc (next_ref s)\<rparr>)"

text \<open>
  For evaluating the model: the client is the unit value, a new observer's result is \<open>0\<close>,
  \<open>updateState\<close> overwrites the state with the delivered result, and the defaulting is one
  of the two instances. In \<open>demo_store k q\<close> the caller's options object is at address \<open>0\<close>,
  with top-level fields \<open>q\<close>, and its query key at address \<open>1\<close>, with contents \<open>k\<close>.
\<close>

definition demo_env :: "(unit, nat, nat, nat) collaborators" where
  "demo_env =
     \<lparr>useQueryClient = (\<lambda>k. ()), defaultQueryObserverOptions = shallow_copy,
      initialResult = (\<lambda>c s opts. 0), updateState = (\<lambda>old result. result)\<rparr>"

definition demo_env_same :: "(unit, nat, nat, nat) collaborators" where
  "demo_env_same = demo_env\<lparr>defaultQueryObserverOptions := return_same\<rparr>"

definition demo_store :: "nat \<Rightarrow> nat \<Rightarrow> (nat, nat) store" where
  "demo_store k q =
     \<lparr>objects = (\<lambda>r. \<lparr>queryClientKey = None, queryKey = 1, observerOptions = q\<rparr>),
      keys = (\<lambda>r. k), next_ref = 2\<rparr>"

section \<open>Properties of \<open>useBaseQuery\<close>\<close>

subsection \<open>What each kind of callback can change\<close>

lemma fold_call_listener:
  "fold (call_listener env r) ls w =
     w\<lparr>state := fold (\<lambda>l s. updateState env s r) ls (state w)\<rparr>"
proof (induction ls arbitrary: w)
  case Nil
  show ?case by simp
next
  case (Cons l ls)
  show ?case by (cases l) (simp add: Cons.IH)
qed

lemma call_effect_frame:
  "state (call_effect env f w) = state w"
  "unmounted_hooks (call_effect env f w) = unmounted_hooks w"
  "unsubscribe (call_effect env f w) = unsubscribe w"
  "defaultedOptions (call_effect env f w) = defaultedOptions w"
  "queryClient (call_effect env f w) = queryClient w"
  "effects (call_effect env f w) = effects w"
  "options (call_effect env f w) = options w"
  "listeners (observer (call_effect env f w)) = listeners (observer w)"
  "fetchOptimistic_calls (observer (call_effect env f w)) = fetchOptimistic_calls (observer w)"
  by (cases f; simp add: setOptions_def split: prod.split)+

lemma fold_call_effect_frame:
  "state (fold (call_effect env) fs w) = state w"
  "unmounted_hooks (fold (call_effect env) fs w) = unmounted_hooks w"
  "unsubscribe (fold (call_effect env) fs w) = unsubscribe w"
  "defaultedOptions (fold (call_effect env) fs w) = defaultedOptions w"
  "queryClient (fold (call_effect env) fs w) = queryClient w"
  "effects (fold (call_effect env) fs w) = effects w"
  "options (fold (call_effect env) fs w) = options w"
  "listeners (observer (fold (call_effect env) fs w)) = listeners (observer w)"
  "fetchOptimistic_calls (observer (fold (call_effect env) fs w)) =
     fetchOptimistic_calls (observer w)"
  by (induction fs arbitrary: w; simp add: call_effect_frame)+

lemma fold_call_hook:
  "fold call_hook hs w =
     w\<lparr>observer := fold (\<lambda>h. call_unsubscribe (unsubscribe w)) hs (observer w)\<rparr>"
proof (induction hs arbitrary: w)
  case Nil
  show ?case by simp
next
  case (Cons h hs)
  show ?case by (cases h) (simp add: Cons.IH)
qed

lemma fold_call_unsubscribe:
  "fold (\<lambda>h. call_unsubscribe (Unsubscribe l)) hs obs =
     (if hs = [] then obs else obs\<lparr>listeners := filter (\<lambda>x. x \<noteq> l) (listeners obs)\<rparr>)"
  by (induction hs arbitrary: obs) simp_all

subsection \<open>Runs\<close>

lemma run_Nil: "run env w [] = w"
  by (simp add: run_def)

lemma run_Cons: "run env w (e # es) = run env (step env w e) es"
  by (simp add: run_def)

lemma run_append: "run env w (es @ es') = run env (run env w es) es'"
  by (simp add: run_def)

text \<open>The \<open>const\<close> bindings and the two registries never change after setup.\<close>

lemma step_constant:
  "unmounted_hooks (step env w e) = unmounted_hooks w"
  "unsubscribe (step env w e) = unsubscribe w"
  "defaultedOptions (step env w e) = defaultedOptions w"
  "queryClient (step env w e) = queryClient w"
  "effects (step env w e) = effects w"
  "options (step env w e) = options w"
  by (cases e; simp add: fold_call_listener fold_call_effect_frame fold_call_hook suspense_def)+

lemma run_constant:
  "unmounted_hooks (run env w es) = unmounted_hooks w"
  "unsubscribe (run env w es) = unsubscribe w"
  "defaultedOptions (run env w es) = defaultedOptions w"
  "queryClient (run env w es) = queryClient w"
  "effects (run env w es) = effects w"
  "options (run env w es) = options w"
  by (induction es arbitrary: w; simp add: run_Nil run_Cons step_constant)+

lemma useBaseQuery_fields:
  "unmounted_hooks (useBaseQuery env s opts) = [UnsubscribeHook]"
  "unsubscribe (useBaseQuery env s opts) = Unsubscribe UpdateStateListener"
  "effects (useBaseQuery env s opts) = [SetOptionsEffect]"
  "listeners (observer (useBaseQuery env s opts)) = [UpdateStateListener]"
  "fetchOptimistic_calls (observer (useBaseQuery env s opts)) = []"
  "options (useBaseQuery env s opts) = opts"
  "queryClient (useBaseQuery env s opts) = useQueryClient env (queryClientKey (objects s opts))"
  "defaultedOptions (useBaseQuery env s opts) =
     fst (defaultQueryObserverOptions env
            (useQueryClient env (queryClientKey (objects s opts))) s opts)"
  by (simp_all add: useBaseQuery_def Let_def new_Observer_def subscribe_def onUnmounted_def
      watchEffect_def setOptions_def getCurrentResult_def split: prod.split)

subsection \<open>The subscription\<close>

text \<open>No event adds a callback to the observer: \<open>subscribe\<close> is called at setup only.\<close>

lemma step_listeners_subset:
  "set (listeners (observer (step env w e))) \<subseteq> set (listeners (observer w))"
proof (cases e)
  case Unmount
  obtain l where "unsubscribe w = Unsubscribe l" by (cases "unsubscribe w")
  with Unmount show ?thesis by (auto simp: fold_call_hook fold_call_unsubscribe)
qed (simp_all add: fold_call_listener fold_call_effect_frame suspense_def fetchOptimistic_def)

lemma step_listeners_mounted:
  assumes "e \<noteq> Unmount"
  shows "listeners (observer (step env w e)) = listeners (observer w)"
  using assms
  by (cases e) (simp_all add: fold_call_listener fold_call_effect_frame suspense_def
      fetchOptimistic_def)

text \<open>Until the component is disposed the callback is subscribed, and a notification
  reaches the reactive state through \<open>updateState\<close>.\<close>

lemma run_listeners_mounted:
  assumes "Unmount \<notin> set es"
  shows "listeners (observer (run env w es)) = listeners (observer w)"
  using assms
proof (induction es arbitrary: w)
  case Nil
  show ?case by (simp add: run_Nil)
next
  case (Cons e es)
  then have "e \<noteq> Unmount" and "Unmount \<notin> set es" by auto
  with Cons.IH [of "step env w e"] show ?case
    by (simp add: run_Cons step_listeners_mounted)
qed

lemma notify_updates_state_while_mounted:
  assumes "Unmount \<notin> set es"
  shows "state (run env (useBaseQuery env s opts) (es @ [Notify r])) =
           updateState env (state (run env (useBaseQuery env s opts) es)) r"
  using run_listeners_mounted [OF assms, of env "useBaseQuery env s opts"]
  by (simp add: run_append run_Cons run_Nil fold_call_listener useBaseQuery_fields)

text \<open>With no callback subscribed, no event changes the reactive state.\<close>

lemma step_state_unsubscribed:
  assumes "listeners (observer w) = []"
  shows "state (step env w e) = state w"
  using assms
  by (cases e) (simp_all add: fold_call_effect_frame fold_call_hook suspense_def)

lemma run_unsubscribed:
  assumes "listeners (observer w) = []"
  shows "listeners (observer (run env w es)) = [] \<and> state (run env w es) = state w"
  using assms
proof (induction es arbitrary: w)
  case Nil
  then show ?case by (simp add: run_Nil)
next
  case (Cons e es)
  from step_listeners_subset [of env w e] Cons.prems
  have "listeners (observer (step env w e)) = []" by simp
  with Cons.IH [of "step env w e"] step_state_unsubscribed [OF Cons.prems, of env e]
  show ?case by (simp add: run_Cons)
qed

lemma step_Unmount:
  assumes "unmounted_hooks w = [UnsubscribeHook]"
  shows "step env w Unmount = w\<lparr>observer := call_unsubscribe (unsubscribe w) (observer w)\<rparr>"
  using assms by simp

lemma only_listener: "filter (\<lambda>x. x \<noteq> UpdateStateListener) ls = []"
proof (induction ls)
  case Nil
  show ?case by simp
next
  case (Cons l ls)
  then show ?case by (cases l) simp
qed

text \<open>
  Claim C9. For every call of \<open>useBaseQuery\<close> and every history \<open>before\<close> of the component:
  the \<open>onUnmounted\<close> hook runs the \<open>unsubscribe\<close> function that \<open>observer.subscribe\<close>
  returned at setup (disposal does exactly that call, on the observer; the function
  returned is the same whatever observer \<open>obs0\<close> the callback is subscribed on); after disposal
  the observer has no subscribed callback left; and whatever happens afterwards (new
  results of the observer, option changes, re-run effects, \<open>suspense\<close> calls, in any order)
  the reactive \<open>state\<close> keeps the contents it had at disposal.
\<close>

theorem useBaseQuery_unsubscribes_on_unmount:
  "step env (run env (useBaseQuery env s opts) before) Unmount =
     (run env (useBaseQuery env s opts) before)
       \<lparr>observer := call_unsubscribe (snd (subscribe obs0 UpdateStateListener))
          (observer (run env (useBaseQuery env s opts) before))\<rparr> \<and>
   listeners (observer (run env (useBaseQuery env s opts) (before @ [Unmount]))) = [] \<and>
   state (run env (useBaseQuery env s opts) (before @ Unmount # after)) =
     state (run env (useBaseQuery env s opts) (before @ [Unmount]))"
proof -
  let ?w = "run env (useBaseQuery env s opts) before"
  have hooks: "unmounted_hooks ?w = [UnsubscribeHook]"
    by (simp add: run_constant useBaseQuery_fields)
  have unsub: "unsubscribe ?w = Unsubscribe UpdateStateListener"
    by (simp add: run_constant useBaseQuery_fields)
  have returned: "snd (subscribe obs0 UpdateStateListener) = Unsubscribe UpdateStateListener"
    by (simp add: subscribe_def)
  have disposal: "step env ?w Unmount =
      ?w\<lparr>observer := call_unsubscribe (Unsubscribe UpdateStateListener) (observer ?w)\<rparr>"
    using step_Unmount [OF hooks, of env] by (simp add: unsub)
  then have none: "listeners (observer (step env ?w Unmount)) = []"
    by (simp add: only_listener)
  have split: "run env (useBaseQuery env s opts) (before @ Unmount # after) =
      run env (step env ?w Unmount) after"
    by (simp add: run_append run_Cons)
  have one: "run env (useBaseQuery env s opts) (before @ [Unmount]) = step env ?w Unmount"
    by (simp add: run_append run_Cons run_Nil)
  from run_unsubscribed [OF none, of env after]
  have frozen: "state (run env (step env ?w Unmount) after) = state (step env ?w Unmount)"
    by simp
  show ?thesis
    unfolding split one returned using disposal none frozen by simp
qed

text \<open>
  An instance: the result \<open>5\<close> arrives, the component is disposed, the result \<open>7\<close>
  arrives. The state stays \<open>5\<close>, whereas without the disposal it becomes \<open>7\<close>.
\<close>

theorem useBaseQuery_unsubscribes_on_unmount_witness:
  "state (run demo_env (useBaseQuery demo_env (demo_store 1 1) 0)
            ([Notify 5] @ Unmount # [Notify 7, RunEffects])) = 5 \<and>
   listeners (observer (run demo_env (useBaseQuery demo_env (demo_store 1 1) 0)
            ([Notify 5] @ [Unmount]))) = [] \<and>
   state (run demo_env (useBaseQuery demo_env (demo_store 1 1) 0) [Notify 5, Notify 7]) = 7"
  using useBaseQuery_unsubscribes_on_unmount
    [of demo_env "demo_store 1 1" 0 "[Notify 5]" _ "[Notify 7, RunEffects]"]
  by (simp add: run_def useBaseQuery_def Let_def new_Observer_def subscribe_def
      onUnmounted_def watchEffect_def setOptions_def getCurrentResult_def demo_env_def
      shallow_copy_def demo_store_def)

subsection \<open>The options \<open>suspense\<close> passes\<close>

lemma step_fetchOptimistic_calls:
  "fetchOptimistic_calls (observer (step env w e)) =
     fetchOptimistic_calls (observer w) @
       (if e = Suspense then [(defaultedOptions w, deref (memory w) (defaultedOptions w))]
        else [])"
proof (cases e)
  case Unmount
  obtain l where "unsubscribe w = Unsubscribe l" by (cases "unsubscribe w")
  with Unmount show ?thesis by (simp add: fold_call_hook fold_call_unsubscribe)
qed (simp_all add: fold_call_listener fold_call_effect_frame suspense_def fetchOptimistic_def)

lemma run_fetchOptimistic_refs:
  "map fst (fetchOptimistic_calls (observer (run env w es))) =
     map fst (fetchOptimistic_calls (observer w)) @
       replicate (count_list es Suspense) (defaultedOptions w)"
proof (induction es arbitrary: w)
  case Nil
  show ?case by (simp add: run_Nil)
next
  case (Cons e es)
  show ?case
    by (simp add: run_Cons Cons.IH step_fetchOptimistic_calls step_constant
        replicate_app_Cons_same)
qed

text \<open>The watcher does reach the observer: when the effect re-runs, the observer is given
  the caller's options as they are then, defaulted again.\<close>

lemma watcher_sets_observer_options:
  "obs_options (observer (run env (useBaseQuery env s opts) (es @ [RunEffects]))) =
     fst (defaultQueryObserverOptions env (useQueryClient env (queryClientKey (objects s opts)))
            (memory (run env (useBaseQuery env s opts) es)) opts)"
  by (simp add: run_append run_Cons run_Nil run_constant useBaseQuery_fields setOptions_def
      split: prod.split)

text \<open>
  Where the setup-time contents do stay: when the defaulting makes a one-level copy, no
  event writes to the copy's own fields, so every \<open>suspense\<close> call passes the top-level
  fields the caller's object had at setup, whatever the caller assigns later. The query
  key behind the copy is the caller's and is not covered.
\<close>

lemma call_effect_shallow_copy:
  assumes "defaultQueryObserverOptions env = shallow_copy"
  shows "next_ref (memory w) \<le> next_ref (memory (call_effect env f w))"
    and "a < next_ref (memory w) \<Longrightarrow>
           objects (memory (call_effect env f w)) a = objects (memory w) a"
  using assms by (cases f; simp add: shallow_copy_def)+

lemma fold_call_effect_shallow_copy:
  assumes "defaultQueryObserverOptions env = shallow_copy"
  shows "next_ref (memory w) \<le> next_ref (memory (fold (call_effect env) fs w)) \<and>
         (a < next_ref (memory w) \<longrightarrow>
            objects (memory (fold (call_effect env) fs w)) a = objects (memory w) a)"
proof (induction fs arbitrary: w)
  case Nil
  show ?case by simp
next
  case (Cons f fs)
  have up: "next_ref (memory w) \<le> next_ref (memory (call_effect env f w))"
    by (rule call_effect_shallow_copy(1) [OF assms])
  have keep: "a < next_ref (memory w) \<Longrightarrow>
      objects (memory (call_effect env f w)) a = objects (memory w) a"
    by (rule call_effect_shallow_copy(2) [OF assms])
  from up keep Cons.IH [of "call_effect env f w"]
  show ?case by auto
qed

lemma step_shallow_copy:
  assumes "defaultQueryObserverOptions env = shallow_copy"
    and "options w < defaultedOptions w" and "defaultedOptions w < next_ref (memory w)"
  shows "defaultedOptions (step env w e) < next_ref (memory (step env w e)) \<and>
         objects (memory (step env w e)) (defaultedOptions w) =
           objects (memory w) (defaultedOptions w)"
proof (cases e)
  case RunEffects
  with fold_call_effect_shallow_copy [OF assms(1), of w "effects w" "defaultedOptions w"] assms(3)
  show ?thesis by (simp add: fold_call_effect_frame)
qed (use assms in \<open>simp_all add: fold_call_listener fold_call_hook suspense_def assign_def
      assign_key_def\<close>)

lemma run_shallow_copy:
  assumes "defaultQueryObserverOptions env = shallow_copy"
    and "options w < defaultedOptions w" and "defaultedOptions w < next_ref (memory w)"
  shows "map (fst \<circ> snd) (fetchOptimistic_calls (observer (run env w es))) =
           map (fst \<circ> snd) (fetchOptimistic_calls (observer w)) @
             replicate (count_list es Suspense) (objects (memory w) (defaultedOptions w))"
  using assms(2,3)
proof (induction es arbitrary: w)
  case Nil
  show ?case by (simp add: run_Nil)
next
  case (Cons e es)
  from step_shallow_copy [OF assms(1) Cons.prems, of e]
  have inv: "defaultedOptions (step env w e) < next_ref (memory (step env w e))"
    and same: "objects (memory (step env w e)) (defaultedOptions w) =
                 objects (memory w) (defaultedOptions w)"
    by simp_all
  from Cons.prems(1) have "options (step env w e) < defaultedOptions (step env w e)"
    by (simp add: step_constant)
  from Cons.IH [OF this inv] same show ?case
    by (simp add: run_Cons step_fetchOptimistic_calls step_constant deref_def
        replicate_app_Cons_same)
qed

lemma shallow_copy_keeps_top_level_fields:
  assumes "defaultQueryObserverOptions env = shallow_copy" and "opts < next_ref s"
  shows "map (fst \<circ> snd)
           (fetchOptimistic_calls (observer (run env (useBaseQuery env s opts) es))) =
         replicate (count_list es Suspense) (objects s opts)"
proof -
  let ?w = "useBaseQuery env s opts"
  have d: "defaultedOptions ?w = next_ref s"
    by (simp add: useBaseQuery_fields assms(1) shallow_copy_def)
  have m: "next_ref s < next_ref (memory ?w) \<and>
      objects (memory ?w) (next_ref s) = objects s opts"
    using assms(2)
    by (simp add: useBaseQuery_def Let_def assms(1) shallow_copy_def new_Observer_def
        subscribe_def onUnmounted_def watchEffect_def setOptions_def getCurrentResult_def)
  from run_shallow_copy [OF assms(1), of ?w es] d m assms(2)
  show ?thesis by (simp add: useBaseQuery_fields)
qed

text \<open>
  Claim C10, as stated, says that \<open>suspense\<close> always passes the options as defaulted at
  setup. Read as a statement about what \<open>fetchOptimistic\<close> receives, it fails: the call
  passes an object, and the object is read when the call is made. With the copying
  defaulting, the query key is \<open>1\<close> at setup; \<open>suspense\<close> is called, the caller changes its
  key in place to \<open>2\<close>, the watcher runs, \<open>suspense\<close> is called again. The first call passes
  key \<open>1\<close>, the second key \<open>2\<close>, which is not what \<open>defaultedOptions\<close> held at setup. With
  the defaulting that returns the caller's own object, a top-level assignment of \<open>2\<close>
  before the first \<open>suspense\<close> call shows in that call as well.
\<close>

theorem suspense_setup_contents_counterexample:
  "map snd (fetchOptimistic_calls (observer
       (run demo_env (useBaseQuery demo_env (demo_store 1 1) 0)
          [Suspense, AssignKey 2, RunEffects, Suspense]))) =
     [(\<lparr>queryClientKey = None, queryKey = 1, observerOptions = 1\<rparr>, 1),
      (\<lparr>queryClientKey = None, queryKey = 1, observerOptions = 1\<rparr>, 2)] \<and>
   deref (memory (useBaseQuery demo_env (demo_store 1 1) 0))
     (defaultedOptions (useBaseQuery demo_env (demo_store 1 1) 0)) =
     (\<lparr>queryClientKey = None, queryKey = 1, observerOptions = 1\<rparr>, 1) \<and>
   map snd (fetchOptimistic_calls (observer
       (run demo_env (useBaseQuery demo_env (demo_store 1 1) 0)
          [Suspense, AssignKey 2, RunEffects, Suspense]))) \<noteq>
     replicate 2 (deref (memory (useBaseQuery demo_env (demo_store 1 1) 0))
       (defaultedOptions (useBaseQuery demo_env (demo_store 1 1) 0))) \<and>
   map snd (fetchOptimistic_calls (observer
       (run demo_env_same (useBaseQuery demo_env_same (demo_store 1 1) 0)
          [Assign 2, Suspense]))) =
     [(\<lparr>queryClientKey = None, queryKey = 1, observerOptions = 2\<rparr>, 1)] \<and>
   deref (memory (useBaseQuery demo_env_same (demo_store 1 1) 0))
     (defaultedOptions (useBaseQuery demo_env_same (demo_store 1 1) 0)) =
     (\<lparr>queryClientKey = None, queryKey = 1, observerOptions = 1\<rparr>, 1)"
  by (simp add: run_def useBaseQuery_def Let_def new_Observer_def subscribe_def
      onUnmounted_def watchEffect_def setOptions_def getCurrentResult_def demo_env_def
      demo_env_same_def return_same_def shallow_copy_def demo_store_def suspense_def
      fetchOptimistic_def deref_def assign_def assign_key_def numeral_2_eq_2)

text \<open>
  Claim C10, amended. For every defaulting function, every store and options object, and
  every sequence of events: all \<open>fetchOptimistic\<close> calls made so far, one per \<open>suspense\<close>
  call, were given the same object, the one that the defaulting returned at setup for the
  options the call was given (line 56) and that is bound to \<open>defaultedOptions\<close>. In-place
  changes of the options, and the watcher's \<open>setOptions\<close> calls with re-defaulted options,
  never change which object \<open>suspense\<close> passes. What a \<open>suspense\<close> call passes behind that
  object is what the store holds there at that moment.
\<close>

theorem suspense_passes_setup_reference:
  "map fst (fetchOptimistic_calls (observer (run env (useBaseQuery env s opts) es))) =
     replicate (count_list es Suspense)
       (fst (defaultQueryObserverOptions env
               (useQueryClient env (queryClientKey (objects s opts))) s opts)) \<and>
   fetchOptimistic_calls (observer (run env (useBaseQuery env s opts) (es @ [Suspense]))) =
     fetchOptimistic_calls (observer (run env (useBaseQuery env s opts) es)) @
       [(defaultedOptions (useBaseQuery env s opts),
         deref (memory (run env (useBaseQuery env s opts) es))
           (defaultedOptions (useBaseQuery env s opts)))]"
proof
  show "map fst (fetchOptimistic_calls (observer (run env (useBaseQuery env s opts) es))) =
      replicate (count_list es Suspense)
        (fst (defaultQueryObserverOptions env
                (useQueryClient env (queryClientKey (objects s opts))) s opts))"
    by (simp add: run_fetchOptimistic_refs useBaseQuery_fields)
next
  let ?w = "run env (useBaseQuery env s opts) es"
  have "run env (useBaseQuery env s opts) (es @ [Suspense]) = step env ?w Suspense"
    by (simp add: run_append run_Cons run_Nil)
  moreover have "defaultedOptions ?w = defaultedOptions (useBaseQuery env s opts)"
    by (rule run_constant)
  ultimately show "fetchOptimistic_calls
        (observer (run env (useBaseQuery env s opts) (es @ [Suspense]))) =
      fetchOptimistic_calls (observer ?w) @
        [(defaultedOptions (useBaseQuery env s opts),
          deref (memory ?w) (defaultedOptions (useBaseQuery env s opts)))]"
    using step_fetchOptimistic_calls [of env ?w Suspense] by simp
qed

text \<open>
  An instance, with the copying defaulting: the caller's object is at address \<open>0\<close>, the
  copy made at setup at address \<open>2\<close>. After a \<open>suspense\<close> call, a top-level assignment, a
  re-run of the watcher and another \<open>suspense\<close> call, both calls were given address \<open>2\<close>,
  while the observer holds the options re-defaulted last, at address \<open>4\<close>.
\<close>

theorem suspense_passes_setup_reference_witness:
  "map fst (fetchOptimistic_calls (observer
       (run demo_env (useBaseQuery demo_env (demo_store 1 1) 0)
          [Suspense, Assign 2, RunEffects, Suspense]))) = [2, 2] \<and>
   obs_options (observer
       (run demo_env (useBaseQuery demo_env (demo_store 1 1) 0)
          [Suspense, Assign 2, RunEffects, Suspense])) = 4"
  using suspense_passes_setup_reference
    [of demo_env "demo_store 1 1" 0 "[Suspense, Assign 2, RunEffects, Suspense]"]
  by (simp add: run_def useBaseQuery_def Let_def new_Observer_def subscribe_def
      onUnmounted_def watchEffect_def setOptions_def getCurrentResult_def demo_env_def
      shallow_copy_def demo_store_def suspense_def fetchOptimistic_def deref_def
      assign_def assign_key_def)

end
